theory Spec2Isabelle
  imports Complex_Main "HOL-Library.AList"
begin

section \<open>Data model\<close>

text \<open>
  Python floats and SQLite REAL values. A finite double is given by its value, a
  rational number (the two zeros, which compare equal, are one value); the two
  infinities and NaN are separate values, because \<^verbatim>\<open>float('inf')\<close> and \<^verbatim>\<open>float('nan')\<close>
  succeed in Python.
\<close>

datatype pyfloat = NaN | NInf | Fin rat | PInf

text \<open>
  Three conversions are taken as the interpreter and the library perform them; they are
  parameters of the model. \<open>round64 q\<close> is the binary64 value nearest to the rational \<open>q\<close>
  (an infinity beyond the range): it is what \<^verbatim>\<open>float\<close> yields on an integer and on the
  ASCII text of a decimal number, and what a cast of an INTEGER to REAL yields.
  \<open>sqlite_decimal\<close> is SQLite's own conversion of a decimal literal, given by its sign,
  integer digits, fraction digits and exponent; it need not be correctly rounded.
  \<open>float_unicode\<close> is \<^verbatim>\<open>float\<close> on a text with non-ASCII characters, which depends on
  Unicode's tables of digits and blanks (\<open>None\<close> when it raises).
\<close>

record numerics =
  round64 :: "rat \<Rightarrow> pyfloat"
  sqlite_decimal :: "bool \<Rightarrow> string \<Rightarrow> string \<Rightarrow> int \<Rightarrow> pyfloat"
  float_unicode :: "string \<Rightarrow> pyfloat option"

text \<open>
  A value as stored in a SQLite table and as handed to Python by the \<^verbatim>\<open>sqlite3\<close> module:
  \<^verbatim>\<open>None\<close>, \<^verbatim>\<open>int\<close>, \<^verbatim>\<open>float\<close> or \<^verbatim>\<open>str\<close> (a text is given by its UTF-8 bytes). The tables of
  this program are built from CSV text and spreadsheet cells only, so BLOB values do not
  occur.
\<close>

datatype sqlval = Null | Integer int | Real pyfloat | Text string

text \<open>
  The table \<^verbatim>\<open>materials\<close> of one database file: the column names in declaration order
  (what \<^verbatim>\<open>PRAGMA table_info\<close> lists) and the rows, each with its rowid, in the order in
  which a scan of the table yields them.
\<close>

record table =
  cols :: "string list"
  rows :: "(int \<times> sqlval list) list"

text \<open>
  A database file on disk: either something SQLite cannot read, or a database that may
  or may not hold the table \<^verbatim>\<open>materials\<close>. The file system maps a path to the file
  there, \<open>None\<close> when no file exists.
\<close>

datatype dbfile = Corrupt | Db "table option"

type_synonym filesystem = "string \<Rightarrow> dbfile option"

text \<open>The process state: the files on disk and the global \<^verbatim>\<open>CURRENT_DB\<close>.\<close>

record server =
  files :: filesystem
  CURRENT_DB :: string

definition MAIN_DB :: string where
  "MAIN_DB = ''materials.db''"

definition USER_DB :: string where
  "USER_DB = ''user.db''"

text \<open>JSON values of the responses, and a response as status code and JSON object.\<close>

datatype json = JNull | JBool bool | JInt int | JStr string

datatype response = Response nat "(string \<times> json) list"

text \<open>
  A handler either returns a response or lets an exception escape (\<open>Inl\<close>, with the
  exception's message).
\<close>

type_synonym outcome = "string + response"

section \<open>Strings\<close>

definition ascii_lower :: "char \<Rightarrow> char" where
  "ascii_lower c =
     (case map_of (zip ''ABCDEFGHIJKLMNOPQRSTUVWXYZ'' ''abcdefghijklmnopqrstuvwxyz'') c of
        Some d \<Rightarrow> d
      | None \<Rightarrow> c)"

text \<open>
  Strings are byte strings (UTF-8). \<^verbatim>\<open>str.lower\<close> is modelled on ASCII letters; the program
  compares lower-cased names only with ASCII words (\<^verbatim>\<open>id\<close>, \<^verbatim>\<open>name\<close>, \<^verbatim>\<open>category\<close>, the file
  extensions), which no non-ASCII letter lower-cases into.
\<close>

definition lower :: "string \<Rightarrow> string" where
  "lower s = map ascii_lower s"

definition endswith :: "string \<Rightarrow> string \<Rightarrow> bool" where
  "endswith s suf = (length suf \<le> length s \<and> drop (length s - length suf) s = suf)"

text \<open>\<^verbatim>\<open>sep.join(items)\<close>.\<close>

fun join :: "string \<Rightarrow> string list \<Rightarrow> string" where
  "join sep [] = []"
| "join sep [x] = x"
| "join sep (x # y # xs) = x @ sep @ join sep (y # xs)"

definition dquote :: char where
  "dquote = CHR 0x22"

definition squote :: char where
  "squote = CHR 0x27"

text \<open>\<^verbatim>\<open>f'"{field}"'\<close>: the name between two double quotes.\<close>

definition quote_name :: "string \<Rightarrow> string" where
  "quote_name field = [dquote] @ field @ [dquote]"

section \<open>Dataset selector\<close>

subsection \<open>\<^verbatim>\<open>stats\<close>\<close>

text \<open>
  The body of the \<^verbatim>\<open>try\<close> block of \<^verbatim>\<open>stats\<close>. On a path with no file, \<^verbatim>\<open>sqlite3.connect\<close>
  creates an empty database when the directory of the path exists (\<open>dir_exists\<close>), and
  the \<^verbatim>\<open>SELECT\<close> then fails in it; without the directory the database cannot be opened
  and nothing is created. On an unreadable file or a database without the table the
  \<^verbatim>\<open>SELECT\<close> fails as well.
\<close>

definition count_materials :: "bool \<Rightarrow> server \<Rightarrow> (string + int) \<times> server" where
  "count_materials dir_exists st =
     (case files st (CURRENT_DB st) of
        None \<Rightarrow>
          (if dir_exists
           then (Inl ''no such table: materials'',
                 st\<lparr>files := (files st)(CURRENT_DB st \<mapsto> Db None)\<rparr>)
           else (Inl ''unable to open database file'', st))
      | Some Corrupt \<Rightarrow> (Inl ''file is not a database'', st)
      | Some (Db None) \<Rightarrow> (Inl ''no such table: materials'', st)
      | Some (Db (Some t)) \<Rightarrow> (Inr (int (length (rows t))), st))"

definition stats :: "bool \<Rightarrow> server \<Rightarrow> outcome \<times> server" where
  "stats dir_exists st =
     (let (r, st') = count_materials dir_exists st;
          total = (case r of Inl e \<Rightarrow> JNull | Inr n \<Rightarrow> JInt n)
      in (Inr (Response 200 [(''total'', total)]), st'))"

subsection \<open>\<^verbatim>\<open>db_select\<close>\<close>

text \<open>
  \<open>key\<close> is the \<^verbatim>\<open>db\<close> field of the request body (\<open>None\<close> when absent). \<open>copy_error\<close> is
  \<open>None\<close> when \<^verbatim>\<open>shutil.copy\<close> succeeds; when it raises, the exception escapes the handler
  before \<^verbatim>\<open>CURRENT_DB\<close> is assigned.
\<close>

definition db_select :: "string option \<Rightarrow> string option \<Rightarrow> server \<Rightarrow> outcome \<times> server" where
  "db_select copy_error key st =
     (if key = Some ''main'' then
        (Inr (Response 200 [(''ok'', JBool True), (''current'', JStr ''main'')]),
         st\<lparr>CURRENT_DB := MAIN_DB\<rparr>)
      else if key = Some ''user'' then
        (if files st USER_DB = None then
           (if files st MAIN_DB = None then
              (Inr (Response 500 [(''error'', JStr ''main db missing'')]), st)
            else
              (case copy_error of
                 Some e \<Rightarrow> (Inl e, st)
               | None \<Rightarrow>
                   (Inr (Response 200 [(''ok'', JBool True), (''current'', JStr ''user'')]),
                    st\<lparr>files := (files st)(USER_DB := files st MAIN_DB),
                       CURRENT_DB := USER_DB\<rparr>)))
         else
           (Inr (Response 200 [(''ok'', JBool True), (''current'', JStr ''user'')]),
            st\<lparr>CURRENT_DB := USER_DB\<rparr>))
      else (Inr (Response 400 [(''error'', JStr ''unknown db'')]), st))"

subsection \<open>\<^verbatim>\<open>db_upload\<close>\<close>

text \<open>
  The error messages of \<^verbatim>\<open>db_upload\<close>, as the UTF-8 bytes of the Chinese text in the source.
  They say: missing file; only .xlsx or .xls are supported; pandas and openpyxl/xlrd must
  be installed; building the database failed (followed by the exception's message).
\<close>

definition MSG_NO_FILE :: string where
  "MSG_NO_FILE =
     [CHR 0xE7, CHR 0xBC, CHR 0xBA, CHR 0xE5, CHR 0xB0, CHR 0x91, CHR 0xE6, CHR 0x96,
      CHR 0x87, CHR 0xE4, CHR 0xBB, CHR 0xB6]"

definition MSG_BAD_EXTENSION :: string where
  "MSG_BAD_EXTENSION =
     [CHR 0xE4, CHR 0xBB, CHR 0x85, CHR 0xE6, CHR 0x94, CHR 0xAF, CHR 0xE6, CHR 0x8C,
      CHR 0x81] @ '' .xlsx '' @ [CHR 0xE6, CHR 0x88, CHR 0x96] @ '' .xls''"

definition MSG_NEED_PANDAS :: string where
  "MSG_NEED_PANDAS =
     [CHR 0xE9, CHR 0x9C, CHR 0x80, CHR 0xE8, CHR 0xA6, CHR 0x81, CHR 0xE5, CHR 0xAE,
      CHR 0x89, CHR 0xE8, CHR 0xA3, CHR 0x85] @ '' pandas '' @ [CHR 0xE4, CHR 0xB8,
      CHR 0x8E] @ '' openpyxl/xlrd''"

definition MSG_BUILD_FAILED :: string where
  "MSG_BUILD_FAILED =
     [CHR 0xE6, CHR 0x9E, CHR 0x84, CHR 0xE5, CHR 0xBB, CHR 0xBA, CHR 0xE6, CHR 0x95,
      CHR 0xB0, CHR 0xE6, CHR 0x8D, CHR 0xAE, CHR 0xE5, CHR 0xBA, CHR 0x93, CHR 0xE5,
      CHR 0xA4, CHR 0xB1, CHR 0xE8, CHR 0xB4, CHR 0xA5] @ '': ''"

text \<open>
  What the environment supplies to one upload: the uploaded file's name (\<open>None\<close> when the
  request has no \<^verbatim>\<open>file\<close> part), the timestamp, whether pandas was imported, the result
  of reading the spreadsheet and building the new database (the table built, or the
  message of the exception raised on the way), and whether the file operations of the
  replacement step succeed.
\<close>

record upload_env =
  filename :: "string option"
  ts :: string
  pd_present :: bool
  built :: "string + table"
  cleanup_ok :: bool
  remove_ok :: bool
  copyfile_error :: "string option"

definition tmp_db_path :: "string \<Rightarrow> string" where
  "tmp_db_path t = ''uploads/upload-'' @ t @ ''.db''"

text \<open>The second \<^verbatim>\<open>try\<close> block of \<^verbatim>\<open>db_upload\<close>: replace the user database by the new one.\<close>

definition replace_user_db :: "upload_env \<Rightarrow> server \<Rightarrow> outcome \<times> server" where
  "replace_user_db env st =
     (let tmp_db = tmp_db_path (ts env);
          fs1 = (if files st USER_DB \<noteq> None \<and> remove_ok env
                 then (files st)(USER_DB := None) else files st)
      in case copyfile_error env of
           None \<Rightarrow>
             (Inr (Response 200 [(''ok'', JBool True), (''current'', JStr ''user''),
                                 (''db_path'', JStr USER_DB)]),
              st\<lparr>files := fs1(USER_DB := fs1 tmp_db), CURRENT_DB := USER_DB\<rparr>)
         | Some e \<Rightarrow>
             (Inr (Response 200 [(''ok'', JBool True), (''current'', JStr ''temp''),
                                 (''db_path'', JStr tmp_db),
                                 (''warn'', JStr (''user db replace failed: '' @ e))]),
              st\<lparr>files := fs1, CURRENT_DB := tmp_db\<rparr>))"

definition db_upload :: "upload_env \<Rightarrow> server \<Rightarrow> outcome \<times> server" where
  "db_upload env st =
     (case filename env of
        None \<Rightarrow> (Inr (Response 400 [(''error'', JStr MSG_NO_FILE)]), st)
      | Some fname \<Rightarrow>
          if \<not> (endswith (lower fname) ''.xlsx'' \<or> endswith (lower fname) ''.xls'') then
            (Inr (Response 400 [(''error'', JStr MSG_BAD_EXTENSION)]), st)
          else if \<not> pd_present env then
            (Inr (Response 500 [(''error'', JStr MSG_NEED_PANDAS)]), st)
          else
            (case built env of
               Inl e \<Rightarrow>
                 (Inr (Response 500 [(''error'', JStr (MSG_BUILD_FAILED @ e))]),
                  st\<lparr>files := (files st)(tmp_db_path (ts env) :=
                                  (if cleanup_ok env then None else Some Corrupt))\<rparr>)
             | Inr t \<Rightarrow>
                 replace_user_db env
                   (st\<lparr>files := (files st)(tmp_db_path (ts env) \<mapsto> Db (Some t))\<rparr>)))"

section \<open>Numbers\<close>

text \<open>
  Comparison of floats as IEEE 754 and Python define it: every comparison with NaN is
  false; otherwise \<open>-inf < finite < +inf\<close>.
\<close>

fun flt_lt :: "pyfloat \<Rightarrow> pyfloat \<Rightarrow> bool" where
  "flt_lt NaN y = False"
| "flt_lt x NaN = False"
| "flt_lt x NInf = False"
| "flt_lt NInf y = True"
| "flt_lt PInf y = False"
| "flt_lt (Fin a) PInf = True"
| "flt_lt (Fin a) (Fin b) = (a < b)"

definition flt_le :: "pyfloat \<Rightarrow> pyfloat \<Rightarrow> bool" where
  "flt_le x y = (x \<noteq> NaN \<and> y \<noteq> NaN \<and> \<not> flt_lt y x)"

definition is_digit :: "char \<Rightarrow> bool" where
  "is_digit c = (c \<in> set ''0123456789'')"

definition digit_val :: "char \<Rightarrow> nat" where
  "digit_val c = (case map_of (zip ''0123456789'' [0, 1, 2, 3, 4, 5, 6, 7, 8, 9]) c of
                    Some d \<Rightarrow> d | None \<Rightarrow> 0)"

definition digits_val :: "string \<Rightarrow> nat" where
  "digits_val ds = fold (\<lambda>c n. 10 * n + digit_val c) ds 0"

definition pow10 :: "int \<Rightarrow> rat" where
  "pow10 e = (if 0 \<le> e then 10 ^ nat e else 1 / 10 ^ nat (- e))"

definition read_sign :: "string \<Rightarrow> bool \<times> string" where
  "read_sign s =
     (case s of
        [] \<Rightarrow> (False, [])
      | c # r \<Rightarrow> if c = CHR ''-'' then (True, r) else if c = CHR ''+'' then (False, r)
                 else (False, s))"

definition decimal_value :: "bool \<Rightarrow> string \<Rightarrow> string \<Rightarrow> int \<Rightarrow> rat" where
  "decimal_value neg ip fp e =
     (if neg then - 1 else 1) * of_nat (digits_val (ip @ fp)) * pow10 (e - int (length fp))"

subsection \<open>Python's \<^verbatim>\<open>float\<close>\<close>

text \<open>
  \<^verbatim>\<open>float(s)\<close> on an ASCII string, as CPython reads it: blanks of the C locale are
  stripped from both ends; then come an optional sign and either \<^verbatim>\<open>inf\<close>, \<^verbatim>\<open>infinity\<close>,
  \<^verbatim>\<open>nan\<close> (in any case) or a decimal number with an optional exponent, where digits may
  be separated by single underscores. Anything else raises \<^verbatim>\<open>ValueError\<close> (\<open>None\<close>). The
  value of a decimal number is rounded to binary64.
\<close>

definition c_isspace :: "char \<Rightarrow> bool" where
  "c_isspace c = (c \<in> set [CHR 0x09, CHR 0x0A, CHR 0x0B, CHR 0x0C, CHR 0x0D, CHR 0x20])"

definition float_strip :: "string \<Rightarrow> string" where
  "float_strip s = rev (dropWhile c_isspace (rev (dropWhile c_isspace s)))"

definition is_ascii :: "string \<Rightarrow> bool" where
  "is_ascii s = list_all (\<lambda>c. \<not> digit7 c) s"

fun digitpart_rest :: "string \<Rightarrow> string \<times> string" where
  "digitpart_rest [] = ([], [])"
| "digitpart_rest (c # cs) =
     (if is_digit c then (case digitpart_rest cs of (ds, r) \<Rightarrow> (c # ds, r))
      else if c = CHR ''_'' then
        (case cs of
           [] \<Rightarrow> ([], c # cs)
         | d # cs' \<Rightarrow>
             if is_digit d then (case digitpart_rest cs' of (ds, r) \<Rightarrow> (d # ds, r))
             else ([], c # cs))
      else ([], c # cs))"

definition digitpart :: "string \<Rightarrow> (string \<times> string) option" where
  "digitpart s =
     (case s of
        [] \<Rightarrow> None
      | c # cs \<Rightarrow> if is_digit c then (case digitpart_rest cs of (ds, r) \<Rightarrow> Some (c # ds, r))
                  else None)"

definition py_number :: "string \<Rightarrow> (string \<times> string \<times> string) option" where
  "py_number s =
     (case digitpart s of
        Some (ip, r) \<Rightarrow>
          (case r of
             [] \<Rightarrow> Some (ip, [], [])
           | c # r' \<Rightarrow>
               if c = CHR ''.'' then
                 (case digitpart r' of
                    Some (fp, r'') \<Rightarrow> Some (ip, fp, r'')
                  | None \<Rightarrow> Some (ip, [], r'))
               else Some (ip, [], r))
      | None \<Rightarrow>
          (case s of
             [] \<Rightarrow> None
           | c # r' \<Rightarrow>
               if c = CHR ''.'' then
                 (case digitpart r' of
                    Some (fp, r'') \<Rightarrow> Some ([], fp, r'')
                  | None \<Rightarrow> None)
               else None))"

definition py_exponent :: "string \<Rightarrow> int option" where
  "py_exponent r =
     (case r of
        [] \<Rightarrow> Some 0
      | c # r' \<Rightarrow>
          if c = CHR ''e'' \<or> c = CHR ''E'' then
            (case read_sign r' of
               (eneg, r'') \<Rightarrow>
                 (case digitpart r'' of
                    Some (ed, []) \<Rightarrow> Some ((if eneg then - 1 else 1) * int (digits_val ed))
                  | _ \<Rightarrow> None))
          else None)"

definition py_float_ascii :: "(rat \<Rightarrow> pyfloat) \<Rightarrow> string \<Rightarrow> pyfloat option" where
  "py_float_ascii rnd s =
     (case read_sign (float_strip s) of
        (neg, body) \<Rightarrow>
          if lower body = ''inf'' \<or> lower body = ''infinity'' then
            Some (if neg then NInf else PInf)
          else if lower body = ''nan'' then Some NaN
          else
            (case py_number body of
               None \<Rightarrow> None
             | Some (ip, fp, r) \<Rightarrow>
                 (case py_exponent r of
                    None \<Rightarrow> None
                  | Some e \<Rightarrow> Some (rnd (decimal_value neg ip fp e)))))"

definition py_float_str :: "numerics \<Rightarrow> string \<Rightarrow> pyfloat option" where
  "py_float_str N s = (if is_ascii s then py_float_ascii (round64 N) s else float_unicode N s)"

text \<open>
  \<^verbatim>\<open>float(v)\<close> on a value read from the database. \<^verbatim>\<open>float(None)\<close> raises \<^verbatim>\<open>TypeError\<close>.
\<close>

definition py_float :: "numerics \<Rightarrow> sqlval \<Rightarrow> pyfloat option" where
  "py_float N v =
     (case v of
        Null \<Rightarrow> None
      | Integer i \<Rightarrow> Some (round64 N (of_int i))
      | Real x \<Rightarrow> Some x
      | Text s \<Rightarrow> py_float_str N s)"

text \<open>
  The builtins \<^verbatim>\<open>min\<close> and \<^verbatim>\<open>max\<close> on a list: the first item is the candidate, and a later
  item replaces it when \<^verbatim>\<open>item < candidate\<close> (for \<^verbatim>\<open>max\<close>: \<^verbatim>\<open>item > candidate\<close>). On the empty
  list they raise \<^verbatim>\<open>ValueError\<close>.
\<close>

fun py_min_from :: "pyfloat \<Rightarrow> pyfloat list \<Rightarrow> pyfloat" where
  "py_min_from m [] = m"
| "py_min_from m (x # xs) = py_min_from (if flt_lt x m then x else m) xs"

fun py_max_from :: "pyfloat \<Rightarrow> pyfloat list \<Rightarrow> pyfloat" where
  "py_max_from m [] = m"
| "py_max_from m (x # xs) = py_max_from (if flt_lt m x then x else m) xs"

definition py_min :: "pyfloat list \<Rightarrow> pyfloat option" where
  "py_min xs = (case xs of [] \<Rightarrow> None | x # r \<Rightarrow> Some (py_min_from x r))"

definition py_max :: "pyfloat list \<Rightarrow> pyfloat option" where
  "py_max xs = (case xs of [] \<Rightarrow> None | x # r \<Rightarrow> Some (py_max_from x r))"

text \<open>
  \<^verbatim>\<open>dict(pairs)\<close> and repeated \<^verbatim>\<open>d[k] = v\<close>: a key keeps the position of its first
  insertion and the value of its last.
\<close>

definition py_dict :: "('k \<times> 'v) list \<Rightarrow> ('k \<times> 'v) list" where
  "py_dict kvs = fold (\<lambda>(k, v) d. AList.update k v d) kvs []"

section \<open>The SQL engine\<close>

text \<open>
  The statements this program sends are evaluated by SQLite. The definitions of this
  section describe SQLite on the statements the program generates, after the SQLite
  documentation (datatypes, \<^verbatim>\<open>CAST\<close> expressions, comparison, name resolution); they are
  not code of the repository.
\<close>

subsection \<open>\<^verbatim>\<open>CAST(x AS REAL)\<close>\<close>

text \<open>
  Text to REAL: leading blanks are skipped and the longest prefix that reads as a
  decimal number (sign, digits, fraction, exponent) is converted; the rest is ignored.
  An exponent marker without digits counts as exponent 0. When the prefix has no digit
  at all the result is 0.0.
\<close>

definition sqlite_isspace :: "char \<Rightarrow> bool" where
  "sqlite_isspace c =
     (c \<in> set [CHR 0x09, CHR 0x0A, CHR 0x0B, CHR 0x0C, CHR 0x0D, CHR 0x20])"

definition sqlite_exponent :: "string \<Rightarrow> int" where
  "sqlite_exponent z =
     (case z of
        [] \<Rightarrow> 0
      | c # r \<Rightarrow>
          if c = CHR ''e'' \<or> c = CHR ''E'' then
            (case read_sign r of
               (eneg, r') \<Rightarrow> (if eneg then - 1 else 1) * int (digits_val (takeWhile is_digit r')))
          else 0)"

definition numeric_prefix :: "string \<Rightarrow> bool \<times> string \<times> string \<times> int" where
  "numeric_prefix s =
     (case read_sign (dropWhile sqlite_isspace s) of
        (neg, z1) \<Rightarrow>
          (let ip = takeWhile is_digit z1;
               z2 = dropWhile is_digit z1;
               (fp, z3) = (case z2 of
                             [] \<Rightarrow> ([], [])
                           | c # r \<Rightarrow> if c = CHR ''.''
                                       then (takeWhile is_digit r, dropWhile is_digit r)
                                       else ([], z2))
           in (neg, ip, fp, sqlite_exponent z3)))"

definition sqlite_atof :: "numerics \<Rightarrow> string \<Rightarrow> pyfloat" where
  "sqlite_atof N s =
     (case numeric_prefix s of
        (neg, ip, fp, e) \<Rightarrow> if ip @ fp = [] then Fin 0 else sqlite_decimal N neg ip fp e)"

definition cast_real :: "numerics \<Rightarrow> sqlval \<Rightarrow> sqlval" where
  "cast_real N v =
     (case v of
        Null \<Rightarrow> Null
      | Integer i \<Rightarrow> Real (round64 N (of_int i))
      | Real x \<Rightarrow> Real x
      | Text s \<Rightarrow> Real (sqlite_atof N s))"

text \<open>
  A number of a request (a JSON integer or float) and its binding as a statement
  parameter: \<^verbatim>\<open>None\<close> binds NULL, SQLite stores a NaN as NULL, and the \<^verbatim>\<open>sqlite3\<close> module
  raises \<^verbatim>\<open>OverflowError\<close> on an integer outside the signed 64-bit range.
\<close>

datatype number = IntNum int | FloatNum pyfloat

definition fits_int64 :: "int \<Rightarrow> bool" where
  "fits_int64 i = (- (2 ^ 63) \<le> i \<and> i < 2 ^ 63)"

definition bind_param :: "number option \<Rightarrow> sqlval option" where
  "bind_param x =
     (case x of
        None \<Rightarrow> Some Null
      | Some (IntNum i) \<Rightarrow> if fits_int64 i then Some (Integer i) else None
      | Some (FloatNum NaN) \<Rightarrow> Some Null
      | Some (FloatNum y) \<Rightarrow> Some (Real y))"

text \<open>
  The value of a number, and the numbers that bound a range: a float other than NaN, or
  an integer within the signed 64-bit range.
\<close>

definition number_of :: "number \<Rightarrow> pyfloat" where
  "number_of x = (case x of IntNum i \<Rightarrow> Fin (of_int i) | FloatNum y \<Rightarrow> y)"

definition range_bound :: "number \<Rightarrow> bool" where
  "range_bound x = (case x of IntNum i \<Rightarrow> fits_int64 i | FloatNum y \<Rightarrow> y \<noteq> NaN)"

text \<open>
  \<^verbatim>\<open>x BETWEEN lo AND hi\<close> is \<^verbatim>\<open>x >= lo AND x <= hi\<close>; a row passes a \<^verbatim>\<open>WHERE\<close> clause only
  when the condition is true, and a comparison with NULL is not true. Here \<open>x\<close> is the
  result of a cast to REAL and the bounds are bound numbers or NULL; SQLite compares an
  INTEGER with a REAL by their exact values.
\<close>

definition number_value :: "sqlval \<Rightarrow> pyfloat option" where
  "number_value v =
     (case v of Integer i \<Rightarrow> Some (Fin (of_int i)) | Real x \<Rightarrow> Some x | _ \<Rightarrow> None)"

definition sql_between :: "sqlval \<Rightarrow> sqlval \<Rightarrow> sqlval \<Rightarrow> bool" where
  "sql_between x lo hi =
     (case x of
        Real v \<Rightarrow>
          (case (number_value lo, number_value hi) of
             (Some a, Some b) \<Rightarrow> flt_le a v \<and> flt_le v b
           | _ \<Rightarrow> False)
      | _ \<Rightarrow> False)"

subsection \<open>Names\<close>

text \<open>
  A double-quoted name in a statement refers to the column of that name, compared
  without regard to ASCII case.
\<close>

fun find_col :: "string list \<Rightarrow> string \<Rightarrow> nat option" where
  "find_col [] p = None"
| "find_col (c # cs) p =
     (if lower c = lower p then Some 0 else map_option Suc (find_col cs p))"

definition column_value :: "string list \<Rightarrow> string \<Rightarrow> sqlval list \<Rightarrow> sqlval" where
  "column_value table_cols p cells =
     (case find_col table_cols p of
        Some j \<Rightarrow> (if j < length cells then cells ! j else Null)
      | None \<Rightarrow> Null)"

text \<open>
  The program writes a name into a statement as \<^verbatim>\<open>"name"\<close>. When no interpolated name
  contains a double quote, the text between the quotes is the name, and the statement is
  the one described below.

  A double quote inside a name ends the quoted name early. When the names of a statement
  consist of ASCII letters, digits and double quotes, and the double quotes in them are
  odd in number, some quoted name of the text is never closed (nothing else in the text
  opens a quotation or a comment): SQLite rejects the statement with a syntax error or
  an unrecognized token (\<open>MalformedStatement\<close>). On a statement of neither kind the engine
  is not described (\<open>NotDescribed\<close>).
\<close>

definition plain_name :: "string \<Rightarrow> bool" where
  "plain_name n = (dquote \<notin> set n)"

definition is_alnum :: "char \<Rightarrow> bool" where
  "is_alnum c =
     (c \<in> set ''abcdefghijklmnopqrstuvwxyzABCDEFGHIJKLMNOPQRSTUVWXYZ0123456789'')"

definition unclosed_quote :: "string list \<Rightarrow> bool" where
  "unclosed_quote names =
     (list_all (list_all (\<lambda>c. is_alnum c \<or> c = dquote)) names
      \<and> odd (length (filter (\<lambda>c. c = dquote) (concat names))))"

text \<open>
  The word \<^verbatim>\<open>rowid\<close> (also \<^verbatim>\<open>oid\<close>, \<^verbatim>\<open>_rowid_\<close>) names the row identifier unless a declared
  column has that name, which then takes precedence.
\<close>

definition is_rowid_name :: "string \<Rightarrow> bool" where
  "is_rowid_name p = (lower p \<in> set [''rowid'', ''_rowid_'', ''oid''])"

definition rowid_value :: "table \<Rightarrow> int \<times> sqlval list \<Rightarrow> sqlval" where
  "rowid_value t r =
     (case find_col (cols t) ''rowid'' of
        Some j \<Rightarrow> column_value (cols t) ''rowid'' (snd r)
      | None \<Rightarrow> Integer (fst r))"

text \<open>
  The two leading items of the select list of \<^verbatim>\<open>search\<close>: \<^verbatim>\<open>rowid AS id\<close> and either
  \<^verbatim>\<open>"name_col" AS name\<close> or the empty text \<^verbatim>\<open>AS name\<close>.
\<close>

definition name_value :: "table \<Rightarrow> string option \<Rightarrow> int \<times> sqlval list \<Rightarrow> sqlval" where
  "name_value t name_col r =
     (case name_col of Some nm \<Rightarrow> column_value (cols t) nm (snd r) | None \<Rightarrow> Text [])"

datatype sql_error =
  MalformedStatement | NoSuchColumn string | TooManyVariables | IntegerOverflow
  | NotDescribed

text \<open>
  \<^verbatim>\<open>SELECT rowid AS id, ... AS name, ... FROM materials WHERE 1=1 AND CAST("p" AS REAL)
  BETWEEN ? AND ? ...\<close>: one triple per appended condition, holding the name and the two
  values for its placeholders. A name in the \<^verbatim>\<open>WHERE\<close> clause is looked up among the
  columns, then as a name of the row identifier, then among the aliases \<^verbatim>\<open>id\<close> and
  \<^verbatim>\<open>name\<close> of the select list. A name found nowhere makes the statement fail, unless the
  library accepts double-quoted string literals (\<open>dqs\<close>), in which case the name is read
  as a text value. The statement is compiled before the parameters are bound, so an
  unknown name is reported before an integer that does not fit. The rows come in scan
  order. (A request with more conditions than half the library's limit on placeholders
  fails in the library; that limit is left out here.)
\<close>

definition resolve :: "table \<Rightarrow> string option \<Rightarrow> string \<Rightarrow> int \<times> sqlval list \<Rightarrow> sqlval" where
  "resolve t name_col p r =
     (case find_col (cols t) p of
        Some j \<Rightarrow> column_value (cols t) p (snd r)
      | None \<Rightarrow>
          if is_rowid_name p then Integer (fst r)
          else if lower p = ''id'' then rowid_value t r
          else if lower p = ''name'' then name_value t name_col r
          else Text p)"

definition unknown_name :: "table \<Rightarrow> string \<Rightarrow> bool" where
  "unknown_name t p =
     (find_col (cols t) p = None \<and> \<not> is_rowid_name p \<and> lower p \<notin> set [''id'', ''name''])"

definition holds ::
  "numerics \<Rightarrow> table \<Rightarrow> string option \<Rightarrow> int \<times> sqlval list
     \<Rightarrow> string \<times> number option \<times> number option \<Rightarrow> bool" where
  "holds N t name_col r pred =
     (case pred of
        (p, lo, hi) \<Rightarrow>
          (case (bind_param lo, bind_param hi) of
             (Some a, Some b) \<Rightarrow> sql_between (cast_real N (resolve t name_col p r)) a b
           | _ \<Rightarrow> False))"

definition row_passes ::
  "numerics \<Rightarrow> table \<Rightarrow> string option \<Rightarrow> (string \<times> number option \<times> number option) list
     \<Rightarrow> int \<times> sqlval list \<Rightarrow> bool" where
  "row_passes N t name_col preds r = list_all (holds N t name_col r) preds"

definition bindable :: "string \<times> number option \<times> number option \<Rightarrow> bool" where
  "bindable pred =
     (case pred of (p, lo, hi) \<Rightarrow> bind_param lo \<noteq> None \<and> bind_param hi \<noteq> None)"

text \<open>
  The names written into that statement between double quotes: the name column if there
  is one, the columns of the table, and the names of the tests.
\<close>

definition interpolated_names ::
  "table \<Rightarrow> string option \<Rightarrow> (string \<times> number option \<times> number option) list
     \<Rightarrow> string list" where
  "interpolated_names t name_col preds =
     (case name_col of Some nm \<Rightarrow> [nm] | None \<Rightarrow> []) @ cols t @ map fst preds"

definition sqlite_select_where ::
  "numerics \<Rightarrow> bool \<Rightarrow> table \<Rightarrow> string option
     \<Rightarrow> (string \<times> number option \<times> number option) list
     \<Rightarrow> sql_error + (int \<times> sqlval list) list" where
  "sqlite_select_where N dqs t name_col preds =
     (if unclosed_quote (interpolated_names t name_col preds) then Inl MalformedStatement
      else if \<not> list_all plain_name (interpolated_names t name_col preds)
      then Inl NotDescribed
      else
        (case find (unknown_name t) (map fst preds) of
           Some p \<Rightarrow>
             if \<not> dqs then Inl (NoSuchColumn p)
             else if \<not> list_all bindable preds then Inl IntegerOverflow
             else Inr (filter (row_passes N t name_col preds) (rows t))
         | None \<Rightarrow>
             if \<not> list_all bindable preds then Inl IntegerOverflow
             else Inr (filter (row_passes N t name_col preds) (rows t))))"


text \<open>\<^verbatim>\<open>SELECT "field" FROM materials\<close>, one value per row.\<close>

definition sqlite_select_column :: "table \<Rightarrow> string \<Rightarrow> sql_error + sqlval list" where
  "sqlite_select_column t field =
     (if unclosed_quote [field] then Inl MalformedStatement
      else if \<not> plain_name field then Inl NotDescribed
      else
        (case find_col (cols t) field of
           None \<Rightarrow> Inl (NoSuchColumn field)
         | Some j \<Rightarrow> Inr (map (\<lambda>r. column_value (cols t) field (snd r)) (rows t))))"

text \<open>
  What SQLite guarantees of a table: the column names differ (without regard to case),
  every row has one value per column, and no two rows have the same rowid.
\<close>

definition wf_table :: "table \<Rightarrow> bool" where
  "wf_table t =
     (distinct (map lower (cols t))
      \<and> list_all (\<lambda>r. length (snd r) = length (cols t)) (rows t)
      \<and> distinct (map fst (rows t)))"

section \<open>Range query engine: \<^verbatim>\<open>search\<close>\<close>

definition NAME_CANDIDATES :: "string list" where
  "NAME_CANDIDATES =
     [[CHR 0xE5, CHR 0x90, CHR 0x88, CHR 0xE9, CHR 0x87, CHR 0x91,
       CHR 0xE6, CHR 0x88, CHR 0x90, CHR 0xE5, CHR 0x88, CHR 0x86],
      [CHR 0xE5, CHR 0x90, CHR 0x88, CHR 0xE9, CHR 0x87, CHR 0x91,
       CHR 0xE6, CHR 0x88, CHR 0x90, CHR 0xE4, CHR 0xBB, CHR 0xBD],
      ''name'', ''Name'']"

text \<open>
  One entry of \<^verbatim>\<open>conditions\<close>: the fields \<^verbatim>\<open>property\<close>, \<^verbatim>\<open>min\<close> and \<^verbatim>\<open>max\<close>, each \<open>None\<close> when
  the key is absent or null. The property is a string and the bounds are JSON numbers
  (an integer of any size or a float).
\<close>

record cond =
  property :: "string option"
  min_val :: "number option"
  max_val :: "number option"

definition choose_name_column :: "string list \<Rightarrow> string option" where
  "choose_name_column table_cols = find (\<lambda>cand. cand \<in> set table_cols) NAME_CANDIDATES"

text \<open>\<^verbatim>\<open>select_list\<close>: \<^verbatim>\<open>rowid AS id\<close>, the name column or \<^verbatim>\<open>''\<close> as \<^verbatim>\<open>name\<close>, then every column.\<close>

definition select_list :: "string list \<Rightarrow> string list" where
  "select_list table_cols =
     ''rowid AS id''
     # (case choose_name_column table_cols of
          Some name_col \<Rightarrow> quote_name name_col @ '' AS name''
        | None \<Rightarrow> [squote, squote] @ '' AS name'')
     # map quote_name table_cols"

text \<open>
  The loop over \<^verbatim>\<open>conditions\<close>: a condition whose property is missing or empty is
  skipped; every other one appends a \<^verbatim>\<open>BETWEEN\<close> test to the text of the query and its
  two bounds to the parameters. The parameters are kept here as one triple per test: the
  name the test casts and the two bounds, which the source appends to the flat list
  \<^verbatim>\<open>params\<close>.
\<close>

fun add_conditions ::
  "cond list \<Rightarrow> string \<times> (string \<times> number option \<times> number option) list
     \<Rightarrow> string \<times> (string \<times> number option \<times> number option) list" where
  "add_conditions [] q = q"
| "add_conditions (c # cs) q =
     (case property c of
        None \<Rightarrow> add_conditions cs q
      | Some p \<Rightarrow>
          if p = [] then add_conditions cs q
          else add_conditions cs
                 (fst q @ '' AND CAST('' @ quote_name p @ '' AS REAL) BETWEEN ? AND ?'',
                  snd q @ [(p, min_val c, max_val c)]))"

definition search_query ::
  "cond list \<Rightarrow> string list
     \<Rightarrow> string \<times> (string \<times> number option \<times> number option) list" where
  "search_query conditions table_cols =
     add_conditions conditions
       (''SELECT '' @ join '', '' (select_list table_cols) @ '' FROM materials WHERE 1=1'', [])"

text \<open>
  The values of one result row, item by item of the select list; every quoted name of
  the list is a column of the table.
\<close>

definition select_columns :: "table \<Rightarrow> int \<times> sqlval list \<Rightarrow> sqlval list" where
  "select_columns t r = map (\<lambda>cname. column_value (cols t) cname (snd r)) (cols t)"

definition select_row :: "table \<Rightarrow> string option \<Rightarrow> int \<times> sqlval list \<Rightarrow> sqlval list" where
  "select_row t name_col r = rowid_value t r # name_value t name_col r # select_columns t r"

record search_result =
  columns :: "string list"
  data :: "(string \<times> sqlval) list list"

text \<open>\<^verbatim>\<open>c.execute(query, params)\<close> and \<^verbatim>\<open>c.fetchall()\<close>: the rows that pass the tests.\<close>

definition search_rows ::
  "numerics \<Rightarrow> bool \<Rightarrow> cond list \<Rightarrow> table \<Rightarrow> sql_error + (int \<times> sqlval list) list" where
  "search_rows N dqs conditions t =
     sqlite_select_where N dqs t (choose_name_column (cols t))
       (snd (search_query conditions (cols t)))"

definition search ::
  "numerics \<Rightarrow> bool \<Rightarrow> cond list \<Rightarrow> table \<Rightarrow> sql_error + search_result" where
  "search N dqs conditions t =
     (let table_cols = cols t;
          name_col = choose_name_column table_cols;
          cs = ''id'' # ''name'' # table_cols
      in case search_rows N dqs conditions t of
           Inl e \<Rightarrow> Inl e
         | Inr rs \<Rightarrow>
             Inr \<lparr>columns = cs,
                  data = map (\<lambda>r. py_dict (zip cs (select_row t name_col r))) rs\<rparr>)"

section \<open>Export: \<^verbatim>\<open>export_candidates\<close>\<close>



section \<open>Property inspector: \<^verbatim>\<open>properties\<close>\<close>

text \<open>
  The inner loop over the values of one column. \<open>None\<close> stands for
  \<^verbatim>\<open>is_numeric = False\<close>; otherwise the result is \<^verbatim>\<open>numeric_values\<close>.
\<close>

fun scan_values :: "numerics \<Rightarrow> sqlval list \<Rightarrow> pyfloat list \<Rightarrow> pyfloat list option" where
  "scan_values N [] numeric_values = Some numeric_values"
| "scan_values N (v # vs) numeric_values =
     (if v = Null \<or> v = Text [] then scan_values N vs numeric_values
      else
        (case py_float N v of
           None \<Rightarrow> None
         | Some x \<Rightarrow> scan_values N vs (numeric_values @ [x])))"

definition column_range :: "numerics \<Rightarrow> sqlval list \<Rightarrow> (pyfloat \<times> pyfloat) option" where
  "column_range N vals =
     (case scan_values N vals [] of
        None \<Rightarrow> None
      | Some numeric_values \<Rightarrow>
          (case (py_min numeric_values, py_max numeric_values) of
             (Some mn, Some mx) \<Rightarrow> Some (mn, mx)
           | _ \<Rightarrow> None))"

fun properties_loop ::
  "numerics \<Rightarrow> table \<Rightarrow> string list \<Rightarrow> (string \<times> pyfloat \<times> pyfloat) list
     \<Rightarrow> sql_error + (string \<times> pyfloat \<times> pyfloat) list" where
  "properties_loop N t [] result = Inr result"
| "properties_loop N t (field # todo) result =
     (case sqlite_select_column t field of
        Inl e \<Rightarrow> Inl e
      | Inr vals \<Rightarrow>
          properties_loop N t todo
            (case column_range N vals of
               None \<Rightarrow> result
             | Some mm \<Rightarrow> AList.update field mm result))"

definition all_fields :: "table \<Rightarrow> string list" where
  "all_fields t = filter (\<lambda>f. lower f \<notin> set [''id'', ''name'', ''category'']) (cols t)"

definition properties ::
  "numerics \<Rightarrow> table \<Rightarrow> sql_error + (string \<times> pyfloat \<times> pyfloat) list" where
  "properties N t = properties_loop N t (all_fields t) []"

section \<open>Relational materializer: \<^verbatim>\<open>init_db\<close> and \<^verbatim>\<open>db_upload\<close>\<close>

text \<open>The column definition that the CSV branch of \<^verbatim>\<open>init_db\<close> writes for one field.\<close>

definition column_sql :: "string \<Rightarrow> string" where
  "column_sql field =
     (let field_escaped = quote_name field
      in if lower field = ''id'' then field_escaped @ '' INTEGER PRIMARY KEY''
         else if lower field \<in> set [''name'', ''category''] then field_escaped @ '' TEXT''
         else field_escaped @ '' REAL'')"

definition create_table_sql :: "string list \<Rightarrow> string" where
  "create_table_sql fieldnames =
     ''CREATE TABLE materials ('' @ join '', '' (map column_sql fieldnames) @ '')''"

text \<open>The spreadsheet branch and \<^verbatim>\<open>db_upload\<close> declare every column as \<^verbatim>\<open>TEXT\<close>.\<close>

definition create_table_text_sql :: "string list \<Rightarrow> string" where
  "create_table_text_sql column_names =
     ''CREATE TABLE materials ('' @ join '', '' (map (\<lambda>col. quote_name col @ '' TEXT'') column_names)
       @ '')''"

definition insert_sql :: "string list \<Rightarrow> string" where
  "insert_sql fieldnames =
     ''INSERT INTO materials ('' @ join '', '' (map quote_name fieldnames)
       @ '') VALUES ('' @ join '', '' (map (\<lambda>_. ''?'') fieldnames) @ '')''"

text \<open>
  One \<^verbatim>\<open>c.execute(sql, values)\<close> of the insertion loop: the statement text and the values
  bound to its placeholders. A CSV row is the reader's dictionary; an empty string (or a
  missing value) is bound as \<^verbatim>\<open>None\<close>. A spreadsheet row is a list of cells, \<open>None\<close> for
  a cell that \<^verbatim>\<open>pd.isna\<close> reports.
\<close>

definition insert_csv_row ::
  "string list \<Rightarrow> (string \<rightharpoonup> string) \<Rightarrow> string \<times> string option list" where
  "insert_csv_row fieldnames row =
     (insert_sql fieldnames,
      map (\<lambda>f. case row f of None \<Rightarrow> None | Some v \<Rightarrow> if v \<noteq> [] then Some v else None)
        fieldnames)"

definition insert_sheet_row ::
  "string list \<Rightarrow> 'v option list \<Rightarrow> string \<times> 'v option list" where
  "insert_sheet_row column_names row = (insert_sql column_names, row)"

text \<open>
  How SQL reads a name in double quotes (the engine's rule, not code of the repository):
  the name starts after the opening quote and ends at the first double quote that is
  not doubled; a doubled double quote stands for one double quote inside the name. The
  result is the name read and the rest of the statement text; \<open>None\<close> when the text does
  not start with a double quote or the name is not closed.
\<close>

fun read_quoted_body :: "string \<Rightarrow> (string \<times> string) option" where
  "read_quoted_body [] = None"
| "read_quoted_body (c # cs) =
     (if c = dquote then
        (case cs of
           [] \<Rightarrow> Some ([], [])
         | d # cs' \<Rightarrow>
             if d = dquote
             then map_option (\<lambda>(n, r). (dquote # n, r)) (read_quoted_body cs')
             else Some ([], cs))
      else map_option (\<lambda>(n, r). (c # n, r)) (read_quoted_body cs))"

definition read_quoted :: "string \<Rightarrow> (string \<times> string) option" where
  "read_quoted s =
     (case s of
        [] \<Rightarrow> None
      | c # cs \<Rightarrow> if c = dquote then read_quoted_body cs else None)"

section \<open>Row merge utility: \<^verbatim>\<open>merge_new\<close>\<close>
























section \<open>Example inputs\<close>

definition st_main_only :: server where
  "st_main_only = \<lparr>files = (\<lambda>p. None)(MAIN_DB \<mapsto> Db (Some \<lparr>cols = [''x''], rows = [(1, [Integer 5])]\<rparr>)), CURRENT_DB = MAIN_DB\<rparr>"

definition st_no_files :: server where
  "st_no_files = \<lparr>files = (\<lambda>p. None), CURRENT_DB = MAIN_DB\<rparr>"

definition env_copy_fails :: upload_env where
  "env_copy_fails = \<lparr>filename = Some ''new.xlsx'', ts = ''20240101-120000'', pd_present = True,
     built = Inr \<lparr>cols = [''Ti''], rows = [(1, [Text ''5''])]\<rparr>,
     cleanup_ok = True, remove_ok = True, copyfile_error = Some ''Permission denied''\<rparr>"

text \<open>
  The conversions on the examples below. Their numbers are small integers and short
  decimal texts whose value is a binary fraction; binary64 holds these exactly, so each
  conversion yields the exact value there, and no example has a text with a non-ASCII
  character. (On other inputs this instance is not the interpreter's.)
\<close>

definition example_numerics :: numerics where
  "example_numerics =
     \<lparr>round64 = Fin,
      sqlite_decimal = (\<lambda>neg ip fp e. Fin (decimal_value neg ip fp e)),
      float_unicode = (\<lambda>s. None)\<rparr>"

definition t_example :: table where
  "t_example =
     \<lparr>cols = [''id'', ''name'', ''Ti'', ''Al''],
      rows = [(1, [Integer 1, Text ''a'', Real (Fin 5), Text ''abc'']),
              (2, [Integer 2, Text ''b'', Null, Real (Fin 2)]),
              (3, [Integer 3, Text ''c'', Text ''7.5'', Text ''nan''])]\<rparr>"

definition t_text :: table where
  "t_text = \<lparr>cols = [''Al''], rows = [(1, [Text ''abc''])]\<rparr>"



definition t_quoted :: table where
  "t_quoted = \<lparr>cols = [''a'' @ [dquote] @ ''b''], rows = [(1, [Real (Fin 1)])]\<rparr>"

section \<open>Properties of the dataset selector\<close>

lemma tmp_db_path_neq_USER_DB: "tmp_db_path t \<noteq> USER_DB"
  by (simp add: tmp_db_path_def USER_DB_def)

lemma MAIN_neq_USER: "MAIN_DB \<noteq> USER_DB"
  by (simp add: MAIN_DB_def USER_DB_def)

text \<open>
  Claim C10. \<^verbatim>\<open>stats\<close> never raises: in every state it returns a response with status 200
  whose only field \<^verbatim>\<open>total\<close> is the row count when the current path holds a readable
  database with the table, and null in every other case (no file, with or without the
  directory of the path; unreadable file; no table).
\<close>

theorem stats_never_raises:
  "fst (stats dir_exists st) =
     Inr (Response 200 [(''total'',
        (case files st (CURRENT_DB st) of
           Some (Db (Some t)) \<Rightarrow> JInt (int (length (rows t)))
         | _ \<Rightarrow> JNull))])"
  by (simp add: stats_def count_materials_def split: option.splits dbfile.splits)

text \<open>
  Claim C5. Selecting "user" while no user database file exists: when the main database
  file exists (and the copy succeeds), the user file becomes a copy of the main file's
  content, \<^verbatim>\<open>CURRENT_DB\<close> becomes the user path, and rewriting the main file afterwards
  leaves the user file as it is; when the main file is missing, the handler answers 500
  "main db missing" and leaves the state unchanged, so no user file is created.
\<close>

theorem db_select_user_first_use:
  assumes "files st USER_DB = None"
  shows "(\<forall>d. files st MAIN_DB = Some d \<longrightarrow>
            (\<exists>st'. db_select None (Some ''user'') st =
                     (Inr (Response 200 [(''ok'', JBool True), (''current'', JStr ''user'')]), st')
                 \<and> files st' USER_DB = Some d
                 \<and> CURRENT_DB st' = USER_DB
                 \<and> (\<forall>x. ((files st')(MAIN_DB := x)) USER_DB = Some d)))
       \<and> (files st MAIN_DB = None \<longrightarrow>
            (\<forall>c. db_select c (Some ''user'') st =
                    (Inr (Response 500 [(''error'', JStr ''main db missing'')]), st)))"
  using assms MAIN_neq_USER by (auto simp: db_select_def)

theorem db_select_user_first_use_witness:
  "files st_main_only USER_DB = None
   \<and> files st_main_only MAIN_DB = Some (Db (Some \<lparr>cols = [''x''], rows = [(1, [Integer 5])]\<rparr>))
   \<and> fst (db_select None (Some ''user'') st_main_only) =
        Inr (Response 200 [(''ok'', JBool True), (''current'', JStr ''user'')])
   \<and> files (snd (db_select None (Some ''user'') st_main_only)) USER_DB =
        Some (Db (Some \<lparr>cols = [''x''], rows = [(1, [Integer 5])]\<rparr>))
   \<and> CURRENT_DB (snd (db_select None (Some ''user'') st_main_only)) = USER_DB
   \<and> files st_no_files USER_DB = None \<and> files st_no_files MAIN_DB = None
   \<and> db_select None (Some ''user'') st_no_files =
        (Inr (Response 500 [(''error'', JStr ''main db missing'')]), st_no_files)"
  using db_select_user_first_use [of st_main_only] db_select_user_first_use [of st_no_files]
    MAIN_neq_USER
  by (auto simp: st_main_only_def st_no_files_def)

text \<open>
  Claim C6. When an upload has built the new database and the copy onto the user database
  fails, the handler does not fail: it answers 200 with \<^verbatim>\<open>ok\<close>, \<^verbatim>\<open>current = temp\<close> and a
  warning, \<^verbatim>\<open>CURRENT_DB\<close> is the path of the new database, and that path holds the table
  just built.
\<close>

theorem db_upload_copy_failure_falls_back_to_temp:
  assumes "filename env = Some fname"
    and "endswith (lower fname) ''.xlsx'' \<or> endswith (lower fname) ''.xls''"
    and "pd_present env"
    and "built env = Inr t"
    and "copyfile_error env = Some e"
  shows "\<exists>st'. db_upload env st =
           (Inr (Response 200 [(''ok'', JBool True), (''current'', JStr ''temp''),
                               (''db_path'', JStr (tmp_db_path (ts env))),
                               (''warn'', JStr (''user db replace failed: '' @ e))]), st')
         \<and> CURRENT_DB st' = tmp_db_path (ts env)
         \<and> files st' (tmp_db_path (ts env)) = Some (Db (Some t))"
  using assms tmp_db_path_neq_USER_DB [of "ts env"]
  by (auto simp: db_upload_def replace_user_db_def Let_def)

theorem db_upload_copy_failure_witness:
  "filename env_copy_fails = Some ''new.xlsx''
   \<and> endswith (lower ''new.xlsx'') ''.xlsx''
   \<and> pd_present env_copy_fails
   \<and> built env_copy_fails = Inr \<lparr>cols = [''Ti''], rows = [(1, [Text ''5''])]\<rparr>
   \<and> copyfile_error env_copy_fails = Some ''Permission denied''
   \<and> fst (db_upload env_copy_fails st_main_only) =
        Inr (Response 200 [(''ok'', JBool True), (''current'', JStr ''temp''),
                           (''db_path'', JStr ''uploads/upload-20240101-120000.db''),
                           (''warn'', JStr ''user db replace failed: Permission denied'')])
   \<and> CURRENT_DB (snd (db_upload env_copy_fails st_main_only)) = ''uploads/upload-20240101-120000.db''
   \<and> files (snd (db_upload env_copy_fails st_main_only)) ''uploads/upload-20240101-120000.db'' =
        Some (Db (Some \<lparr>cols = [''Ti''], rows = [(1, [Text ''5''])]\<rparr>))"
proof -
  have e: "endswith (lower ''new.xlsx'') ''.xlsx''"
    by (simp add: endswith_def lower_def ascii_lower_def)
  have f: "filename env_copy_fails = Some ''new.xlsx''" "pd_present env_copy_fails"
    "built env_copy_fails = Inr \<lparr>cols = [''Ti''], rows = [(1, [Text ''5''])]\<rparr>"
    "copyfile_error env_copy_fails = Some ''Permission denied''"
    "ts env_copy_fails = ''20240101-120000''"
    by (simp_all add: env_copy_fails_def)
  from db_upload_copy_failure_falls_back_to_temp [OF f(1) disjI1 [OF e] f(2) f(3) f(4), of st_main_only]
  show ?thesis using e f by (auto simp: tmp_db_path_def)
qed

section \<open>Properties of the range query engine\<close>

lemma add_conditions_append:
  "add_conditions (xs @ ys) q = add_conditions ys (add_conditions xs q)"
  by (induction xs arbitrary: q) (auto split: option.splits)

lemma map_of_fold_update:
  "map_of (fold (\<lambda>(k, v) d. AList.update k v d) kvs d) = map_of d ++ map_of (rev kvs)"
proof (induction kvs arbitrary: d)
  case Nil
  then show ?case by simp
next
  case (Cons kv kvs)
  obtain k v where kv: "kv = (k, v)" by (cases kv)
  show ?case
    by (rule ext) (simp add: kv Cons.IH update_conv' map_add_def split: option.splits)
qed

lemma map_of_py_dict: "map_of (py_dict kvs) = map_of (rev kvs)"
  by (simp add: py_dict_def map_of_fold_update)

lemma map_of_rev_distinct:
  "distinct (map fst xs) \<Longrightarrow> map_of (rev xs) = map_of xs"
proof (induction xs)
  case Nil
  then show ?case by simp
next
  case (Cons x xs)
  obtain k v where x: "x = (k, v)" by (cases x)
  from Cons.prems have k: "map_of xs k = None"
    by (simp add: x map_of_eq_None_iff)
  from Cons show ?case
    by (auto simp: x k map_add_def fun_eq_iff split: option.splits)
qed

lemma row_dict_column:
  assumes "distinct table_cols" and "length cells = length table_cols" and "j < length table_cols"
  shows "map_of (py_dict (zip (a # b # table_cols) (x # y # cells))) (table_cols ! j)
           = Some (cells ! j)"
proof -
  have d: "distinct (map fst (zip table_cols cells))"
    using assms by (simp add: map_fst_zip)
  have "map_of (rev (zip table_cols cells)) (table_cols ! j) = Some (cells ! j)"
    using assms by (simp add: map_of_rev_distinct [OF d] map_of_zip_nth)
  then show ?thesis
    by (simp add: map_of_py_dict map_add_def)
qed

lemma find_col_nth:
  "distinct (map lower cs) \<Longrightarrow> j < length cs \<Longrightarrow> find_col cs (cs ! j) = Some j"
proof (induction cs arbitrary: j)
  case Nil
  then show ?case by simp
next
  case (Cons c cs)
  show ?case
  proof (cases j)
    case 0
    then show ?thesis by simp
  next
    case (Suc k)
    with Cons.prems have k: "k < length cs" and "lower (cs ! k) \<in> set (map lower cs)"
      by auto
    with Cons.prems have "lower c \<noteq> lower (cs ! k)" by auto
    with Cons.IH [of k] Cons.prems k show ?thesis by (simp add: Suc)
  qed
qed

lemma select_columns_row:
  assumes "distinct (map lower (cols t))" and "length (snd r) = length (cols t)"
  shows "select_columns t r = snd r"
  using assms
  by (auto simp: select_columns_def column_value_def find_col_nth intro!: nth_equalityI)

lemma unclosed_quote_plain:
  "list_all plain_name names \<Longrightarrow> \<not> unclosed_quote names"
proof -
  assume "list_all plain_name names"
  then have "filter (\<lambda>c. c = dquote) (concat names) = []"
    by (auto simp: filter_empty_conv list_all_iff plain_name_def)
  then show ?thesis by (simp add: unclosed_quote_def)
qed

lemma choose_name_column_member:
  "choose_name_column table_cols = Some nm \<Longrightarrow> nm \<in> set table_cols"
  by (auto simp: choose_name_column_def find_Some_iff)

lemma interpolated_names_plain:
  assumes "list_all plain_name (cols t)" and "list_all plain_name (map fst preds)"
  shows "list_all plain_name (interpolated_names t (choose_name_column (cols t)) preds)"
  using assms choose_name_column_member [of "cols t"]
  by (auto simp: interpolated_names_def list_all_iff split: option.splits)

lemma search_rows_empty:
  "list_all plain_name (cols t) \<Longrightarrow> search_rows N dqs [] t = Inr (rows t)"
  using interpolated_names_plain [of t "[]"]
  by (simp add: search_rows_def search_query_def sqlite_select_where_def row_passes_def
      unclosed_quote_plain)

lemma search_no_conditions_plain_names:
  assumes "wf_table t" and "list_all plain_name (cols t)"
  shows "\<exists>res. search N dqs [] t = Inr res
           \<and> columns res = ''id'' # ''name'' # cols t
           \<and> length (data res) = length (rows t)
           \<and> (\<forall>i < length (rows t). \<forall>j < length (cols t).
                 map_of (data res ! i) (cols t ! j) = Some (snd (rows t ! i) ! j))"
proof -
  from assms(1) have dl: "distinct (map lower (cols t))"
    by (simp add: wf_table_def)
  then have dist: "distinct (cols t)"
    by (simp add: distinct_map)
  from assms(1) have len: "\<And>i. i < length (rows t) \<Longrightarrow> length (snd (rows t ! i)) = length (cols t)"
    by (simp add: wf_table_def list_all_length)
  show ?thesis
    using row_dict_column [OF dist len] select_columns_row [OF dl len]
    by (simp add: search_def search_rows_empty [OF assms(2)] Let_def select_row_def)
qed

text \<open>
  Claim C3 at a table one of whose columns is named \<^verbatim>\<open>a"b\<close>. The program itself creates
  such a table: for the header field \<^verbatim>\<open>a""b\<close> it writes the quoted name \<^verbatim>\<open>"a""b"\<close> into
  \<^verbatim>\<open>CREATE TABLE\<close>, which SQL reads as the name \<^verbatim>\<open>a"b\<close>. \<^verbatim>\<open>search\<close> then writes that name
  between double quotes as it is: the select list of the query holds \<^verbatim>\<open>"a"b"\<close>, whose
  quoted name ends after \<^verbatim>\<open>a\<close>, and the quote after \<^verbatim>\<open>b\<close> opens a name that is never
  closed. SQLite rejects the statement, so with an empty list of conditions \<^verbatim>\<open>search\<close>
  raises and returns no row of that table.
\<close>

theorem search_select_list_does_not_escape_double_quote:
  "read_quoted (quote_name (''a'' @ [dquote, dquote] @ ''b'') @ '' REAL)'')
     = Some (''a'' @ [dquote] @ ''b'', '' REAL)'')
   \<and> fst (search_query [] (cols t_quoted))
     = ''SELECT rowid AS id, '' @ [squote, squote] @ '' AS name, ''
         @ [dquote] @ ''a'' @ [dquote] @ ''b'' @ [dquote] @ '' FROM materials WHERE 1=1''
   \<and> read_quoted (quote_name (''a'' @ [dquote] @ ''b'') @ '' FROM materials WHERE 1=1'')
     = Some (''a'', ''b'' @ [dquote] @ '' FROM materials WHERE 1=1'')
   \<and> read_quoted ([dquote] @ '' FROM materials WHERE 1=1'') = None
   \<and> search N dqs [] t_quoted = Inl MalformedStatement"
proof -
  have "search_rows N dqs [] t_quoted = Inl MalformedStatement"
    by (simp add: search_rows_def search_query_def sqlite_select_where_def
        interpolated_names_def choose_name_column_def NAME_CANDIDATES_def t_quoted_def
        unclosed_quote_def is_alnum_def dquote_def)
  then have s: "search N dqs [] t_quoted = Inl MalformedStatement"
    by (simp add: search_def)
  have "read_quoted (quote_name (''a'' @ [dquote, dquote] @ ''b'') @ '' REAL)'')
     = Some (''a'' @ [dquote] @ ''b'', '' REAL)'')"
    by code_simp
  moreover have "fst (search_query [] (cols t_quoted))
     = ''SELECT rowid AS id, '' @ [squote, squote] @ '' AS name, ''
         @ [dquote] @ ''a'' @ [dquote] @ ''b'' @ [dquote] @ '' FROM materials WHERE 1=1''"
    by code_simp
  moreover have "read_quoted (quote_name (''a'' @ [dquote] @ ''b'') @ '' FROM materials WHERE 1=1'')
     = Some (''a'', ''b'' @ [dquote] @ '' FROM materials WHERE 1=1'')"
    by code_simp
  moreover have "read_quoted ([dquote] @ '' FROM materials WHERE 1=1'') = None"
    by code_simp
  ultimately show ?thesis using s by simp
qed

text \<open>
  Claim C8. A condition whose \<^verbatim>\<open>property\<close> field is missing is skipped: the response is
  the response to the same request without that condition, whatever the other conditions
  and the table are.
\<close>

theorem search_skips_condition_without_property:
  assumes "property c = None"
  shows "search N dqs (cs1 @ c # cs2) t = search N dqs (cs1 @ cs2) t"
  using assms
  by (simp add: search_def search_rows_def search_query_def add_conditions_append)

theorem search_skips_condition_witness:
  "property \<lparr>property = None, min_val = Some (IntNum 0), max_val = Some (IntNum 1)\<rparr> = None
   \<and> search example_numerics False
         ([\<lparr>property = Some ''Ti'', min_val = Some (IntNum 0), max_val = Some (FloatNum (Fin 6))\<rparr>]
          @ \<lparr>property = None, min_val = Some (IntNum 0), max_val = Some (IntNum 1)\<rparr> # [])
         t_example
       = search example_numerics False
         ([\<lparr>property = Some ''Ti'', min_val = Some (IntNum 0), max_val = Some (FloatNum (Fin 6))\<rparr>]
          @ [])
         t_example
   \<and> search example_numerics False
         ([\<lparr>property = Some ''Ti'', min_val = Some (IntNum 0), max_val = Some (FloatNum (Fin 6))\<rparr>]
          @ \<lparr>property = None, min_val = Some (IntNum 0), max_val = Some (IntNum 1)\<rparr> # [])
         t_example
       = Inr \<lparr>columns = [''id'', ''name'', ''id'', ''name'', ''Ti'', ''Al''],
              data = [[(''id'', Integer 1), (''name'', Text ''a''),
                       (''Ti'', Real (Fin 5)), (''Al'', Text ''abc'')]]\<rparr>"
proof -
  have h: "property \<lparr>property = None, min_val = Some (IntNum 0), max_val = Some (IntNum 1)\<rparr> = None"
    by simp
  have r: "search example_numerics False
         ([\<lparr>property = Some ''Ti'', min_val = Some (IntNum 0), max_val = Some (FloatNum (Fin 6))\<rparr>]
          @ \<lparr>property = None, min_val = Some (IntNum 0), max_val = Some (IntNum 1)\<rparr> # [])
         t_example
       = Inr \<lparr>columns = [''id'', ''name'', ''id'', ''name'', ''Ti'', ''Al''],
              data = [[(''id'', Integer 1), (''name'', Text ''a''),
                       (''Ti'', Real (Fin 5)), (''Al'', Text ''abc'')]]\<rparr>"
    by code_simp
  from search_skips_condition_without_property [OF h, of example_numerics False
      "[\<lparr>property = Some ''Ti'', min_val = Some (IntNum 0), max_val = Some (FloatNum (Fin 6))\<rparr>]"
      "[]" t_example]
    h r
  show ?thesis by simp
qed

text \<open>
  Claim C1, as stated, fails: the text \<^verbatim>\<open>abc\<close> is no number (\<^verbatim>\<open>float\<close> rejects it), yet the
  row holding it passes the range \<open>[-1, 1]\<close>, because \<^verbatim>\<open>CAST('abc' AS REAL)\<close> is 0.0.
\<close>

theorem search_keeps_non_numeric_text_counterexample:
  "search_rows example_numerics False
     [\<lparr>property = Some ''Al'', min_val = Some (IntNum (- 1)), max_val = Some (IntNum 1)\<rparr>] t_text
     = Inr [(1, [Text ''abc''])]
   \<and> py_float example_numerics (Text ''abc'') = None"
  by code_simp

lemma ascii_lower_dquote: "ascii_lower c = dquote \<longleftrightarrow> c = dquote"
  by (simp add: ascii_lower_def dquote_def split: if_splits)

lemma plain_name_lower: "plain_name (lower n) \<longleftrightarrow> plain_name n"
proof -
  have "dquote \<in> ascii_lower ` set n \<longleftrightarrow> dquote \<in> set n"
  proof
    assume "dquote \<in> ascii_lower ` set n"
    then obtain c where "c \<in> set n" and "ascii_lower c = dquote" by auto
    then show "dquote \<in> set n" by (simp add: ascii_lower_dquote)
  next
    assume "dquote \<in> set n"
    moreover have "ascii_lower dquote = dquote" by (simp add: ascii_lower_dquote)
    ultimately show "dquote \<in> ascii_lower ` set n" by force
  qed
  then show ?thesis by (simp add: plain_name_def lower_def)
qed

lemma find_col_plain:
  assumes "list_all plain_name cs" and "find_col cs p = Some j"
  shows "plain_name p"
  using assms
proof (induction cs arbitrary: j)
  case Nil
  then show ?case by simp
next
  case (Cons c cs)
  show ?case
  proof (cases "lower c = lower p")
    case True
    from Cons.prems(1) have "plain_name (lower c)"
      by (simp add: plain_name_lower)
    with True show ?thesis
      by (simp add: plain_name_lower)
  next
    case False
    with Cons.prems obtain k where "find_col cs p = Some k" by auto
    with Cons.IH Cons.prems(1) show ?thesis by simp
  qed
qed

lemma bind_range_bound:
  assumes "range_bound x"
  shows "\<exists>a. bind_param (Some x) = Some a \<and> number_value a = Some (number_of x)"
proof (cases x)
  case (IntNum i)
  with assms show ?thesis
    by (simp add: range_bound_def bind_param_def number_value_def number_of_def)
next
  case (FloatNum y)
  with assms show ?thesis
    by (cases y) (simp_all add: range_bound_def bind_param_def number_value_def number_of_def)
qed

lemma holds_range:
  assumes "range_bound lo" and "range_bound hi"
  shows "holds N t name_col r (p, Some lo, Some hi) =
           (\<exists>x. cast_real N (resolve t name_col p r) = Real x
                \<and> flt_le (number_of lo) x \<and> flt_le x (number_of hi))"
proof -
  from bind_range_bound [OF assms(1)] obtain a
    where a: "bind_param (Some lo) = Some a" "number_value a = Some (number_of lo)" by blast
  from bind_range_bound [OF assms(2)] obtain b
    where b: "bind_param (Some hi) = Some b" "number_value b = Some (number_of hi)" by blast
  show ?thesis
    by (cases "cast_real N (resolve t name_col p r)") (simp_all add: holds_def a b sql_between_def)
qed

text \<open>
  Claim C1, amended. Let no column name of the table contain a double quote, let \<open>p\<close> be
  the non-empty name of a column (names are compared without regard to ASCII case), and
  let \<open>lo\<close> and \<open>hi\<close> be numbers: floats other than NaN or integers within the signed
  64-bit range. For the single range constraint \<open>(p, lo, hi)\<close> a row is in the result if
  and only if SQLite's cast of its value for \<open>p\<close> to REAL is a number within \<open>[lo, hi]\<close>,
  where the cast of a text is the value of its longest numeric prefix and 0.0 when there
  is none; the rows whose value for \<open>p\<close> is NULL are excluded.
\<close>

theorem search_single_range_constraint:
  assumes "list_all plain_name (cols t)"
    and "find_col (cols t) p = Some j" and "p \<noteq> []"
    and "range_bound lo" and "range_bound hi"
  shows "\<exists>rs. search_rows N dqs [\<lparr>property = Some p, min_val = Some lo, max_val = Some hi\<rparr>] t
               = Inr rs
           \<and> search N dqs [\<lparr>property = Some p, min_val = Some lo, max_val = Some hi\<rparr>] t =
               Inr \<lparr>columns = ''id'' # ''name'' # cols t,
                    data = map (\<lambda>r. py_dict (zip (''id'' # ''name'' # cols t)
                                  (select_row t (choose_name_column (cols t)) r))) rs\<rparr>
           \<and> (\<forall>r. r \<in> set rs \<longleftrightarrow>
                 r \<in> set (rows t)
                 \<and> (\<exists>x. cast_real N (column_value (cols t) p (snd r)) = Real x
                        \<and> flt_le (number_of lo) x \<and> flt_le x (number_of hi)))
           \<and> (\<forall>r \<in> set rs. column_value (cols t) p (snd r) \<noteq> Null)"
proof -
  let ?preds = "[(p, Some lo, Some hi)]"
  let ?nc = "choose_name_column (cols t)"
  have pp: "plain_name p"
    by (rule find_col_plain [OF assms(1,2)])
  have un: "\<not> unknown_name t p"
    using assms(2) by (simp add: unknown_name_def)
  have bd: "bindable (p, Some lo, Some hi)"
    using bind_range_bound [OF assms(4)] bind_range_bound [OF assms(5)]
    by (auto simp: bindable_def)
  have names: "list_all plain_name (interpolated_names t ?nc ?preds)"
    using interpolated_names_plain [OF assms(1), of ?preds] pp by simp
  have pass: "row_passes N t ?nc ?preds
      = (\<lambda>r. \<exists>x. cast_real N (column_value (cols t) p (snd r)) = Real x
                  \<and> flt_le (number_of lo) x \<and> flt_le x (number_of hi))"
    using assms(2)
    by (intro ext) (simp add: row_passes_def holds_range [OF assms(4,5)] resolve_def)
  have q: "snd (search_query [\<lparr>property = Some p, min_val = Some lo, max_val = Some hi\<rparr>] (cols t))
      = ?preds"
    using assms(3) by (simp add: search_query_def)
  have sel: "search_rows N dqs [\<lparr>property = Some p, min_val = Some lo, max_val = Some hi\<rparr>] t
      = Inr (filter (\<lambda>r. \<exists>x. cast_real N (column_value (cols t) p (snd r)) = Real x
                        \<and> flt_le (number_of lo) x \<and> flt_le x (number_of hi)) (rows t))"
    unfolding search_rows_def q
    using names un bd
    by (simp add: sqlite_select_where_def unclosed_quote_plain [OF names] pass)
  show ?thesis
    by (auto simp: sel search_def Let_def cast_real_def)
qed

theorem search_single_range_constraint_witness:
  "list_all plain_name (cols t_example)
   \<and> find_col (cols t_example) ''Ti'' = Some 2 \<and> ''Ti'' \<noteq> []
   \<and> range_bound (IntNum 0) \<and> range_bound (FloatNum (Fin 6))
   \<and> search_rows example_numerics False
         [\<lparr>property = Some ''Ti'', min_val = Some (IntNum 0), max_val = Some (FloatNum (Fin 6))\<rparr>]
         t_example
       = Inr [(1, [Integer 1, Text ''a'', Real (Fin 5), Text ''abc''])]
   \<and> cast_real example_numerics (column_value (cols t_example) ''Ti''
         [Integer 1, Text ''a'', Real (Fin 5), Text ''abc'']) = Real (Fin 5)
   \<and> cast_real example_numerics (column_value (cols t_example) ''Ti''
         [Integer 2, Text ''b'', Null, Real (Fin 2)]) = Null
   \<and> cast_real example_numerics (column_value (cols t_example) ''Ti''
         [Integer 3, Text ''c'', Text ''7.5'', Text ''nan'']) = Real (Fin (15 / 2))"
proof -
  have p: "list_all plain_name (cols t_example)" by code_simp
  have f: "find_col (cols t_example) ''Ti'' = Some 2" by code_simp
  have n: "''Ti'' \<noteq> []" by simp
  have b: "range_bound (IntNum 0)" "range_bound (FloatNum (Fin 6))" by code_simp+
  have r: "search_rows example_numerics False
         [\<lparr>property = Some ''Ti'', min_val = Some (IntNum 0), max_val = Some (FloatNum (Fin 6))\<rparr>]
         t_example
       = Inr [(1, [Integer 1, Text ''a'', Real (Fin 5), Text ''abc''])]"
    by code_simp
  have c: "cast_real example_numerics (column_value (cols t_example) ''Ti''
         [Integer 1, Text ''a'', Real (Fin 5), Text ''abc'']) = Real (Fin 5)"
    "cast_real example_numerics (column_value (cols t_example) ''Ti''
         [Integer 2, Text ''b'', Null, Real (Fin 2)]) = Null"
    "cast_real example_numerics (column_value (cols t_example) ''Ti''
         [Integer 3, Text ''c'', Text ''7.5'', Text ''nan'']) = Real (Fin (15 / 2))"
    by code_simp+
  from search_single_range_constraint [OF p f n b, of example_numerics False] p f n b r c
  show ?thesis by simp
qed

section \<open>Properties of the export\<close>




section \<open>Properties of the property inspector\<close>

lemma flt_le_refl: "x \<noteq> NaN \<Longrightarrow> flt_le x x"
  by (cases x) (simp_all add: flt_le_def)

lemma flt_le_trans: "flt_le x y \<Longrightarrow> flt_le y z \<Longrightarrow> flt_le x z"
  by (cases x; cases y; cases z) (simp_all add: flt_le_def)

lemma flt_lt_imp_le: "flt_lt x y \<Longrightarrow> flt_le x y"
  by (cases x; cases y) (simp_all add: flt_le_def)

lemma flt_lt_asym: "flt_lt x y \<Longrightarrow> \<not> flt_lt y x"
  by (cases x; cases y) simp_all

lemma flt_lt_irrefl: "\<not> flt_lt x x"
  by (cases x) simp_all

lemma flt_lt_not_NaN: "flt_lt x y \<Longrightarrow> x \<noteq> NaN \<and> y \<noteq> NaN"
  by (cases x; cases y) simp_all

lemma py_min_from_bound:
  assumes "m \<noteq> NaN" and "NaN \<notin> set xs"
  shows "py_min_from m xs \<in> set (m # xs)
         \<and> (\<forall>x \<in> set (m # xs). flt_le (py_min_from m xs) x)"
  using assms
proof (induction xs arbitrary: m)
  case Nil
  then show ?case by (simp add: flt_le_refl)
next
  case (Cons x xs)
  let ?m' = "if flt_lt x m then x else m"
  from Cons.prems have m': "?m' \<noteq> NaN" and xs: "NaN \<notin> set xs" and x: "x \<noteq> NaN"
    by auto
  from Cons.IH [OF m' xs]
  have mem: "py_min_from ?m' xs \<in> set (?m' # xs)"
    and low: "\<forall>y \<in> set (?m' # xs). flt_le (py_min_from ?m' xs) y"
    by blast+
  from low have l: "flt_le (py_min_from ?m' xs) ?m'" by simp
  have "flt_le ?m' m" and "flt_le ?m' x"
    using Cons.prems(1) x by (auto simp: flt_le_def flt_lt_irrefl dest: flt_lt_asym)
  with l have "flt_le (py_min_from ?m' xs) m" and "flt_le (py_min_from ?m' xs) x"
    by (blast intro: flt_le_trans)+
  with mem low show ?case by auto
qed

lemma py_max_from_bound:
  assumes "m \<noteq> NaN" and "NaN \<notin> set xs"
  shows "py_max_from m xs \<in> set (m # xs)
         \<and> (\<forall>x \<in> set (m # xs). flt_le x (py_max_from m xs))"
  using assms
proof (induction xs arbitrary: m)
  case Nil
  then show ?case by (simp add: flt_le_refl)
next
  case (Cons x xs)
  let ?m' = "if flt_lt m x then x else m"
  from Cons.prems have m': "?m' \<noteq> NaN" and xs: "NaN \<notin> set xs" and x: "x \<noteq> NaN"
    by auto
  from Cons.IH [OF m' xs]
  have mem: "py_max_from ?m' xs \<in> set (?m' # xs)"
    and up: "\<forall>y \<in> set (?m' # xs). flt_le y (py_max_from ?m' xs)"
    by blast+
  from up have l: "flt_le ?m' (py_max_from ?m' xs)" by simp
  have "flt_le m ?m'" and "flt_le x ?m'"
    using Cons.prems(1) x by (auto simp: flt_le_def flt_lt_irrefl dest: flt_lt_asym)
  with l have "flt_le m (py_max_from ?m' xs)" and "flt_le x (py_max_from ?m' xs)"
    by (blast intro: flt_le_trans)+
  with mem up show ?case by auto
qed

lemma py_float_empty: "py_float N (Text []) = None"
  by (simp add: py_float_def py_float_str_def is_ascii_def py_float_ascii_def float_strip_def
      read_sign_def lower_def py_number_def digitpart_def)

lemma scan_values_eq:
  "scan_values N vs acc =
     (if \<forall>v \<in> set vs. v \<noteq> Null \<and> v \<noteq> Text [] \<longrightarrow> py_float N v \<noteq> None
      then Some (acc @ map (\<lambda>v. the (py_float N v))
                         (filter (\<lambda>v. v \<noteq> Null \<and> v \<noteq> Text []) vs))
      else None)"
  by (induction vs arbitrary: acc) (auto split: option.splits)

lemma column_range_reported:
  "(column_range N vals \<noteq> None) \<longleftrightarrow>
     (\<forall>v \<in> set vals. v \<noteq> Null \<and> v \<noteq> Text [] \<longrightarrow> py_float N v \<noteq> None)
     \<and> (\<exists>v \<in> set vals. v \<noteq> Null \<and> v \<noteq> Text [])"
proof -
  let ?ne = "filter (\<lambda>v. v \<noteq> Null \<and> v \<noteq> Text []) vals"
  have e: "(?ne \<noteq> []) \<longleftrightarrow> (\<exists>v \<in> set vals. v \<noteq> Null \<and> v \<noteq> Text [])"
    by (simp add: filter_empty_conv)
  have "(column_range N vals \<noteq> None) \<longleftrightarrow>
     (\<forall>v \<in> set vals. v \<noteq> Null \<and> v \<noteq> Text [] \<longrightarrow> py_float N v \<noteq> None) \<and> ?ne \<noteq> []"
    by (cases ?ne) (simp_all add: column_range_def scan_values_eq py_min_def py_max_def)
  with e show ?thesis by simp
qed

lemma column_range_tight:
  assumes r: "column_range N vals = Some (mn, mx)"
    and nan: "\<forall>v \<in> set vals. py_float N v \<noteq> Some NaN"
  shows "(\<forall>v \<in> set vals. \<forall>x. py_float N v = Some x \<longrightarrow> flt_le mn x \<and> flt_le x mx)
         \<and> (\<exists>v \<in> set vals. py_float N v = Some mn) \<and> (\<exists>v \<in> set vals. py_float N v = Some mx)"
proof -
  define nums where
    "nums = map (\<lambda>v. the (py_float N v)) (filter (\<lambda>v. v \<noteq> Null \<and> v \<noteq> Text []) vals)"
  from r have ok: "\<forall>v \<in> set vals. v \<noteq> Null \<and> v \<noteq> Text [] \<longrightarrow> py_float N v \<noteq> None"
    by (simp add: column_range_def scan_values_eq split: if_splits)
  with r have mm: "(case (py_min nums, py_max nums) of
      (Some mn, Some mx) \<Rightarrow> Some (mn, mx) | _ \<Rightarrow> None) = Some (mn, mx)"
    by (simp add: column_range_def scan_values_eq nums_def)
  then have mn: "py_min nums = Some mn" and mx: "py_max nums = Some mx"
    by (simp_all split: option.splits)
  have ne: "v \<noteq> Null \<and> v \<noteq> Text []" if "py_float N v = Some x" for v x
    using that py_float_empty by (cases v) (auto simp: py_float_def)
  have set_nums: "set nums = {x. \<exists>v \<in> set vals. py_float N v = Some x}"
  proof (intro set_eqI iffI)
    fix x assume "x \<in> set nums"
    then obtain v where v: "v \<in> set vals" "v \<noteq> Null \<and> v \<noteq> Text []" "x = the (py_float N v)"
      by (auto simp: nums_def)
    with ok obtain y where "py_float N v = Some y" by blast
    with v show "x \<in> {x. \<exists>v \<in> set vals. py_float N v = Some x}" by auto
  next
    fix x assume "x \<in> {x. \<exists>v \<in> set vals. py_float N v = Some x}"
    then obtain v where v: "v \<in> set vals" "py_float N v = Some x" by blast
    with ne [OF v(2)] have "v \<in> set (filter (\<lambda>v. v \<noteq> Null \<and> v \<noteq> Text []) vals)"
      by simp
    then have "the (py_float N v) \<in> set nums"
      unfolding nums_def set_map by (rule imageI)
    with v show "x \<in> set nums" by simp
  qed
  from nan have nn: "NaN \<notin> set nums"
    by (auto simp: set_nums)
  from mn obtain m xs where nums: "nums = m # xs"
    by (cases nums) (auto simp: py_min_def)
  from nn have m: "m \<noteq> NaN" and xs: "NaN \<notin> set xs"
    by (auto simp: nums)
  from mn mx have "mn = py_min_from m xs" and "mx = py_max_from m xs"
    by (simp_all add: nums py_min_def py_max_def)
  with py_min_from_bound [OF m xs] py_max_from_bound [OF m xs]
  have "mn \<in> set nums" "mx \<in> set nums" "\<forall>x \<in> set nums. flt_le mn x \<and> flt_le x mx"
    by (auto simp: nums)
  then show ?thesis
    by (auto simp: set_nums)
qed

lemma find_col_member:
  "field \<in> set table_cols \<Longrightarrow> find_col table_cols field \<noteq> None"
  by (induction table_cols) auto

lemma select_column_ok:
  assumes "list_all plain_name (cols t)" and "field \<in> set (cols t)"
  shows "sqlite_select_column t field =
           Inr (map (\<lambda>r. column_value (cols t) field (snd r)) (rows t))"
proof -
  from assms have "plain_name field"
    by (auto simp: list_all_iff)
  then have "\<not> unclosed_quote [field]"
    by (simp add: unclosed_quote_plain)
  with \<open>plain_name field\<close> find_col_member [OF assms(2)] show ?thesis
    by (auto simp: sqlite_select_column_def split: option.splits)
qed

lemma properties_loop_result:
  assumes "list_all plain_name (cols t)" and "set fs \<subseteq> set (cols t)" and "distinct fs"
    and "\<forall>f \<in> set fs. map_of result f = None"
  shows "\<exists>res. properties_loop N t fs result = Inr res
           \<and> (\<forall>f. map_of res f =
                 (if f \<in> set fs
                  then column_range N (map (\<lambda>r. column_value (cols t) f (snd r)) (rows t))
                  else map_of result f))"
  using assms(2-)
proof (induction fs arbitrary: result)
  case Nil
  then show ?case by simp
next
  case (Cons field todo)
  let ?vals = "map (\<lambda>r. column_value (cols t) field (snd r)) (rows t)"
  let ?result' = "case column_range N ?vals of None \<Rightarrow> result
                  | Some mm \<Rightarrow> AList.update field mm result"
  from Cons.prems have sel: "sqlite_select_column t field = Inr ?vals"
    by (simp add: select_column_ok [OF assms(1)])
  have upd: "map_of ?result' = (map_of result)(field := column_range N ?vals)"
    using Cons.prems(3) by (auto simp: update_conv' fun_eq_iff split: option.splits)
  from Cons.prems have "\<forall>f \<in> set todo. map_of ?result' f = None"
    by (auto simp: upd)
  with Cons.IH [of ?result'] Cons.prems
  obtain res where res: "properties_loop N t todo ?result' = Inr res"
    and eq: "\<forall>f. map_of res f =
        (if f \<in> set todo
         then column_range N (map (\<lambda>r. column_value (cols t) f (snd r)) (rows t))
         else map_of ?result' f)"
    by auto
  from Cons.prems(2) have "field \<notin> set todo" by simp
  then show ?case
    by (auto simp: sel res eq upd)
qed

text \<open>
  Claim C2, as stated, fails: the column holds the text \<^verbatim>\<open>nan\<close> and the number 1; every
  value parses with \<^verbatim>\<open>float\<close>, a range is reported, and it is \<open>(NaN, NaN)\<close>, which does not
  bound the value 1.
\<close>

theorem properties_range_with_nan_counterexample:
  "properties example_numerics \<lparr>cols = [''Ti''], rows = [(1, [Text ''nan'']), (2, [Real (Fin 1)])]\<rparr>
     = Inr [(''Ti'', NaN, NaN)]
   \<and> py_float example_numerics (Real (Fin 1)) = Some (Fin 1)
   \<and> \<not> flt_le NaN (Fin 1)"
  by code_simp

text \<open>
  Claim C2, amended. Take a table whose column names hold no double quote (they differ
  without regard to case, as SQLite guarantees).
  For every column whose lower-cased name is not \<^verbatim>\<open>id\<close>, \<^verbatim>\<open>name\<close> or \<^verbatim>\<open>category\<close>,
  \<^verbatim>\<open>properties\<close> reports a range for the column if and only if every stored value other
  than NULL and the empty string parses with \<^verbatim>\<open>float\<close> and there is at least one such
  value; when a range \<open>(min, max)\<close> is reported and no value parses to NaN, every parsed
  value lies between \<open>min\<close> and \<open>max\<close> and both are the parsed value of some cell.
\<close>

theorem properties_reports_numeric_range:
  assumes "distinct (map lower (cols t))" and "list_all plain_name (cols t)"
    and "field \<in> set (cols t)"
    and "lower field \<notin> set [''id'', ''name'', ''category'']"
  shows "\<exists>res. properties N t = Inr res
           \<and> ((map_of res field \<noteq> None) \<longleftrightarrow>
                 (\<forall>r \<in> set (rows t). column_value (cols t) field (snd r) \<noteq> Null
                     \<and> column_value (cols t) field (snd r) \<noteq> Text []
                     \<longrightarrow> py_float N (column_value (cols t) field (snd r)) \<noteq> None)
                 \<and> (\<exists>r \<in> set (rows t). column_value (cols t) field (snd r) \<noteq> Null
                     \<and> column_value (cols t) field (snd r) \<noteq> Text []))
           \<and> (\<forall>mn mx. map_of res field = Some (mn, mx)
                 \<and> (\<forall>r \<in> set (rows t).
                       py_float N (column_value (cols t) field (snd r)) \<noteq> Some NaN)
                 \<longrightarrow>
                 (\<forall>r \<in> set (rows t). \<forall>x.
                     py_float N (column_value (cols t) field (snd r)) = Some x
                     \<longrightarrow> flt_le mn x \<and> flt_le x mx)
                 \<and> (\<exists>r \<in> set (rows t).
                       py_float N (column_value (cols t) field (snd r)) = Some mn)
                 \<and> (\<exists>r \<in> set (rows t).
                       py_float N (column_value (cols t) field (snd r)) = Some mx))"
proof -
  let ?vals = "map (\<lambda>r. column_value (cols t) field (snd r)) (rows t)"
  from assms(1) have "distinct (cols t)"
    by (simp add: distinct_map)
  then have d: "distinct (all_fields t)"
    by (simp add: all_fields_def)
  have s: "set (all_fields t) \<subseteq> set (cols t)"
    by (auto simp: all_fields_def)
  from properties_loop_result [OF assms(2) s d, of "[]" N]
  obtain res where res: "properties N t = Inr res"
    and eq: "\<forall>f. map_of res f =
        (if f \<in> set (all_fields t)
         then column_range N (map (\<lambda>r. column_value (cols t) f (snd r)) (rows t))
         else map_of [] f)"
    by (auto simp: properties_def)
  from assms(3,4) have "field \<in> set (all_fields t)"
    by (simp add: all_fields_def)
  with eq have m: "map_of res field = column_range N ?vals"
    by simp
  have rep: "(map_of res field \<noteq> None) \<longleftrightarrow>
      (\<forall>v \<in> set ?vals. v \<noteq> Null \<and> v \<noteq> Text [] \<longrightarrow> py_float N v \<noteq> None)
      \<and> (\<exists>v \<in> set ?vals. v \<noteq> Null \<and> v \<noteq> Text [])"
    unfolding m by (rule column_range_reported)
  have tight: "(\<forall>v \<in> set ?vals. \<forall>x. py_float N v = Some x \<longrightarrow> flt_le mn x \<and> flt_le x mx)
         \<and> (\<exists>v \<in> set ?vals. py_float N v = Some mn) \<and> (\<exists>v \<in> set ?vals. py_float N v = Some mx)"
    if "map_of res field = Some (mn, mx)" and "\<forall>v \<in> set ?vals. py_float N v \<noteq> Some NaN"
    for mn mx
    using that column_range_tight [of N ?vals mn mx] unfolding m by blast
  show ?thesis
  proof (intro exI conjI allI impI)
    show "properties N t = Inr res" by (rule res)
    show "(map_of res field \<noteq> None) \<longleftrightarrow>
                 (\<forall>r \<in> set (rows t). column_value (cols t) field (snd r) \<noteq> Null
                     \<and> column_value (cols t) field (snd r) \<noteq> Text []
                     \<longrightarrow> py_float N (column_value (cols t) field (snd r)) \<noteq> None)
                 \<and> (\<exists>r \<in> set (rows t). column_value (cols t) field (snd r) \<noteq> Null
                     \<and> column_value (cols t) field (snd r) \<noteq> Text [])"
      using rep by simp
  next
    fix mn mx
    assume a: "map_of res field = Some (mn, mx)
                 \<and> (\<forall>r \<in> set (rows t).
                       py_float N (column_value (cols t) field (snd r)) \<noteq> Some NaN)"
    then have "\<forall>v \<in> set ?vals. py_float N v \<noteq> Some NaN" by simp
    from tight [OF conjunct1 [OF a] this]
    show "\<forall>r \<in> set (rows t). \<forall>x.
                     py_float N (column_value (cols t) field (snd r)) = Some x
                     \<longrightarrow> flt_le mn x \<and> flt_le x mx"
      and "\<exists>r \<in> set (rows t).
                       py_float N (column_value (cols t) field (snd r)) = Some mn"
      and "\<exists>r \<in> set (rows t).
                       py_float N (column_value (cols t) field (snd r)) = Some mx"
      by simp_all
  qed
qed

theorem properties_reports_numeric_range_witness:
  "distinct (map lower (cols t_example)) \<and> list_all plain_name (cols t_example)
   \<and> ''Ti'' \<in> set (cols t_example)
   \<and> lower ''Ti'' \<notin> set [''id'', ''name'', ''category'']
   \<and> properties example_numerics t_example = Inr [(''Ti'', Fin 5, Fin (15 / 2))]
   \<and> map (\<lambda>r. py_float example_numerics (column_value (cols t_example) ''Ti'' (snd r))) (rows t_example)
       = [Some (Fin 5), None, Some (Fin (15 / 2))]"
proof -
  have w: "distinct (map lower (cols t_example))" by code_simp
  have p: "list_all plain_name (cols t_example)" by code_simp
  have f: "''Ti'' \<in> set (cols t_example)" by code_simp
  have l: "lower ''Ti'' \<notin> set [''id'', ''name'', ''category'']" by code_simp
  have r: "properties example_numerics t_example = Inr [(''Ti'', Fin 5, Fin (15 / 2))]" by code_simp
  have v: "map (\<lambda>r. py_float example_numerics (column_value (cols t_example) ''Ti'' (snd r))) (rows t_example)
       = [Some (Fin 5), None, Some (Fin (15 / 2))]" by code_simp
  from properties_reports_numeric_range [OF w p f l, of example_numerics] w p f l r v show ?thesis
    by simp
qed
section \<open>Properties of the materializer\<close>

lemma read_quoted_body_plain:
  assumes "dquote \<notin> set n" and "rest = [] \<or> hd rest \<noteq> dquote"
  shows "read_quoted_body (n @ dquote # rest) = Some (n, rest)"
  using assms by (induction n) (auto split: list.splits)

lemma quote_name_plain:
  assumes "plain_name n" and "rest = [] \<or> hd rest \<noteq> dquote"
  shows "read_quoted (quote_name n @ rest) = Some (n, rest)"
  using read_quoted_body_plain [of n rest] assms
  by (simp add: read_quoted_def quote_name_def plain_name_def)

lemma insert_text_independent_of_values:
  "fst (insert_csv_row fieldnames row) = insert_sql fieldnames"
  "fst (insert_sheet_row fieldnames cells) = insert_sql fieldnames"
  by (simp_all add: insert_csv_row_def insert_sheet_row_def)

lemma insert_csv_row_binds_null:
  "row f = Some [] \<Longrightarrow> snd (insert_csv_row [f] row) = [None]"
  by (simp add: insert_csv_row_def)

text \<open>
  Claim C4 at a column name that contains a double quote, \<^verbatim>\<open>a"b\<close>: the name is
  written between double quotes as it is, in the \<^verbatim>\<open>CREATE TABLE\<close> statements of both
  branches and in the \<^verbatim>\<open>INSERT\<close> statement. Read as SQL, the quoted name ends at the
  name's own quote: the name read is \<^verbatim>\<open>a\<close>, and the remainder \<^verbatim>\<open>b"\<close> of the name is
  statement text. (For a name without a double quote the name read is the name itself,
  and cell values never enter the statement text.)
\<close>

theorem materializer_does_not_escape_double_quote:
  "create_table_sql [''a'' @ [dquote] @ ''b'']
     = ''CREATE TABLE materials ('' @ [dquote] @ ''a'' @ [dquote] @ ''b'' @ [dquote] @ '' REAL)''
   \<and> create_table_text_sql [''a'' @ [dquote] @ ''b'']
     = ''CREATE TABLE materials ('' @ [dquote] @ ''a'' @ [dquote] @ ''b'' @ [dquote] @ '' TEXT)''
   \<and> insert_sql [''a'' @ [dquote] @ ''b'']
     = ''INSERT INTO materials ('' @ [dquote] @ ''a'' @ [dquote] @ ''b'' @ [dquote]
         @ '') VALUES (?)''
   \<and> read_quoted (quote_name (''a'' @ [dquote] @ ''b'') @ '' REAL)'')
     = Some (''a'', ''b'' @ [dquote] @ '' REAL)'')"
  by code_simp

section \<open>Properties of the row merge utility\<close>

















end
